theory Spec2Isabelle
  imports Complex_Main
begin

section \<open>Data model (src/models)\<close>

text \<open>
  Mongo ObjectIds are modelled as natural numbers.  Stock quantities and ordered
  quantities are integers (the routes validate them with \<open>isInt\<close>); on integers below
  \<open>2^53\<close> the arithmetic of JavaScript is exact.
\<close>

type_synonym objectId = nat

text \<open>
  A JavaScript \<open>Date\<close>, read in local time: the calendar fields the order-number
  hook uses (\<open>getFullYear\<close>, \<open>getMonth\<close> counted from 0, \<open>getDate\<close>) and the
  milliseconds elapsed since local midnight.
\<close>

record jsdate =
  fullYear :: nat
  month :: nat
  date :: nat
  msOfDay :: nat

subsection \<open>Numbers\<close>

text \<open>
  A JavaScript \<open>Number\<close> that carries money or a percentage is an IEEE-754 double.  A
  finite double is modelled by the rational number it denotes, and every arithmetic
  operation returns the exact result rounded to the nearest double, ties to the even
  significand.  \<open>scale\<close> brings a positive number into \<open>[2^52, 2^53)\<close> by doubling or
  halving and counts the exponent; the scaled number is then rounded to an integer.
  Numbers of magnitude \<open>2^1024\<close> and more (\<open>Infinity\<close>), below \<open>2^-1022\<close> (subnormal
  doubles) and \<open>NaN\<close> are outside the model.
\<close>

fun scale :: "nat \<Rightarrow> rat \<Rightarrow> int \<Rightarrow> rat \<times> int" where
  "scale fuel m e =
     (if fuel = 0 then (m, e)
      else if m < 2 ^ 52 then scale (fuel - 1) (m * 2) (e - 1)
      else if 2 ^ 53 \<le> m then scale (fuel - 1) (m / 2) (e + 1)
      else (m, e))"

declare scale.simps [simp del]

definition roundHalfEven :: "rat \<Rightarrow> int" where
  "roundHalfEven m =
     (let f = \<lfloor>m\<rfloor>; r = m - of_int f
      in if r < 1 / 2 then f else if 1 / 2 < r then f + 1
         else if even f then f else f + 1)"

definition pow2 :: "int \<Rightarrow> rat" where
  "pow2 e = (if 0 \<le> e then 2 ^ nat e else 1 / 2 ^ nat (- e))"

definition toDouble :: "rat \<Rightarrow> rat" where
  "toDouble x =
     (if x = 0 then 0
      else case scale 2200 \<bar>x\<bar> 0 of
             (m, e) \<Rightarrow> sgn x * of_int (roundHalfEven m) * pow2 e)"

text \<open>
  The double a decimal literal (in the source, in JSON or in a stored document)
  denotes, and the four operations on doubles.
\<close>

definition jsNumber :: "rat \<Rightarrow> rat" where
  "jsNumber q = toDouble q"

definition jsAdd :: "rat \<Rightarrow> rat \<Rightarrow> rat" where
  "jsAdd a b = toDouble (a + b)"

definition jsSub :: "rat \<Rightarrow> rat \<Rightarrow> rat" where
  "jsSub a b = toDouble (a - b)"

definition jsMul :: "rat \<Rightarrow> rat \<Rightarrow> rat" where
  "jsMul a b = toDouble (a * b)"

definition jsDiv :: "rat \<Rightarrow> rat \<Rightarrow> rat" where
  "jsDiv a b = toDouble (a / b)"

subsection \<open>Dish (src/models/Table.js, second document)\<close>

record dish =
  name_d :: string
  restaurantId_d :: objectId
  price_d :: rat
  isAvailable_d :: bool
  stockQuantity :: int
  lowStockThreshold :: int
  isLowStock :: bool
  isOutOfStock :: bool

definition checkStockStatus :: "dish \<Rightarrow> dish" where
  "checkStockStatus d =
     d\<lparr>isLowStock := (stockQuantity d \<le> lowStockThreshold d),
       isOutOfStock := (stockQuantity d = 0)\<rparr>"

definition updateStock :: "dish \<Rightarrow> int \<Rightarrow> dish" where
  "updateStock d quantity =
     checkStockStatus (d\<lparr>stockQuantity := max 0 (stockQuantity d + quantity)\<rparr>)"

subsection \<open>Table (src/models/Table.js, first document)\<close>

datatype table_status = Available | Occupied | Reserved | Maintenance | Out_of_service

record table =
  tableNumber :: string
  restaurantId_t :: objectId
  capacity :: nat
  status_t :: table_status
  currentOrder :: "objectId option"
  isActive :: bool

definition isAvailable :: "table \<Rightarrow> bool" where
  "isAvailable t = (status_t t = Available \<and> isActive t)"

text \<open>\<open>reserve\<close> and \<open>occupy\<close> mutate the table and return a boolean: both are returned.\<close>

definition reserve :: "table \<Rightarrow> table \<times> bool" where
  "reserve t = (if isAvailable t then (t\<lparr>status_t := Reserved\<rparr>, True) else (t, False))"

definition occupy :: "table \<Rightarrow> objectId \<Rightarrow> table \<times> bool" where
  "occupy t orderId =
     (if status_t t = Available \<or> status_t t = Reserved
      then (t\<lparr>status_t := Occupied, currentOrder := Some orderId\<rparr>, True)
      else (t, False))"

definition free :: "table \<Rightarrow> table" where
  "free t = t\<lparr>status_t := Available, currentOrder := None\<rparr>"

subsection \<open>Restaurant settings (src/models/Restaurant.js)\<close>

record restaurant =
  taxRate :: rat
  serviceCharge_s :: rat
  deliveryFee_s :: rat

subsection \<open>Order (src/models/Order.js)\<close>

datatype order_type = Dine_in | Takeout | Delivery

datatype order_status =
  Pending | Confirmed | Preparing | Ready | Out_for_delivery
  | Delivered | Completed | Cancelled | Rejected

datatype payment_method = Cash | Card | Online | Wallet

text \<open>A customization as the client sends it; \<open>price\<close> may be absent.\<close>

record customization =
  name_c :: string
  option_c :: string
  price_c :: "rat option"

record order_item =
  dishId :: objectId
  name_i :: string
  price_i :: rat
  quantity :: int
  customizations :: "customization list"
  specialInstructions_i :: "string option"
  totalPrice :: rat

record history_entry =
  status_h :: order_status
  timestamp :: jsdate
  updatedBy :: objectId
  notes_h :: string

record order =
  oid :: objectId
  orderNumber :: string
  restaurantId :: objectId
  customerId :: objectId
  tableId :: "objectId option"
  orderType :: order_type
  items :: "order_item list"
  subtotal :: rat
  taxAmount :: rat
  serviceCharge :: rat
  deliveryFee :: rat
  discountAmount :: rat
  totalAmount :: rat
  status :: order_status
  statusHistory :: "history_entry list"
  paymentMethod :: payment_method
  deliveryAddress :: "string option"
  deliveryInstructions :: "string option"
  specialInstructions :: "string option"
  actualDeliveryTime :: "jsdate option"
  cancellationReason :: "string option"
  cancelledBy :: "objectId option"
  cancelledAt :: "jsdate option"
  createdAt :: jsdate

text \<open>
  \<open>updateStatus(newStatus, updatedBy, notes = '')\<close>: an absent \<open>notes\<close> argument
  takes the default, the empty string; the timestamp is the clock reading \<open>now\<close>.
\<close>

definition updateStatus ::
  "order \<Rightarrow> order_status \<Rightarrow> objectId \<Rightarrow> string option \<Rightarrow> jsdate \<Rightarrow> order" where
  "updateStatus ord newStatus actor notesArg now =
     ord\<lparr>status := newStatus,
         statusHistory := statusHistory ord @
           [\<lparr>status_h = newStatus, timestamp = now, updatedBy = actor,
             notes_h = (case notesArg of None \<Rightarrow> [] | Some n \<Rightarrow> n)\<rparr>]\<rparr>"

definition calculateTotals :: "order \<Rightarrow> order" where
  "calculateTotals ord =
     (let sub = foldl (\<lambda>sum item. jsAdd sum (totalPrice item)) 0 (items ord)
      in ord\<lparr>subtotal := sub,
             totalAmount :=
               jsSub (jsAdd (jsAdd (jsAdd sub (taxAmount ord)) (serviceCharge ord))
                        (deliveryFee ord))
                 (discountAmount ord)\<rparr>)"

subsection \<open>The order-number hook (\<open>OrderSchema.pre('save')\<close>)\<close>

text \<open>\<open>Number.prototype.toString()\<close> on a non-negative integer: its decimal digits.\<close>

definition digit :: "nat \<Rightarrow> char" where
  "digit n = char_of (48 + n)"

fun toString :: "nat \<Rightarrow> string" where
  "toString n = (if n < 10 then [digit n] else toString (n div 10) @ [digit (n mod 10)])"

declare toString.simps [simp del]

definition padStart :: "nat \<Rightarrow> char \<Rightarrow> string \<Rightarrow> string" where
  "padStart targetLength c s = replicate (targetLength - length s) c @ s"

text \<open>\<open>s.slice(-2)\<close>: the last two characters, or all of \<open>s\<close> when it is shorter.\<close>

definition sliceLast2 :: "string \<Rightarrow> string" where
  "sliceLast2 s = drop (length s - 2) s"

text \<open>
  The hook counts the stored orders of the restaurant whose \<open>createdAt\<close> lies in
  \<open>[todayStart, todayEnd)\<close>, local midnight to the next local midnight: these are the
  instants whose local calendar day is today's.
\<close>

definition sameDay :: "jsdate \<Rightarrow> jsdate \<Rightarrow> bool" where
  "sameDay a b = (fullYear a = fullYear b \<and> month a = month b \<and> date a = date b)"

definition countDocuments :: "order list \<Rightarrow> objectId \<Rightarrow> jsdate \<Rightarrow> nat" where
  "countDocuments os rid today =
     length (filter (\<lambda>ord. restaurantId ord = rid \<and> sameDay (createdAt ord) today) os)"

definition orderNumberFor :: "jsdate \<Rightarrow> nat \<Rightarrow> string" where
  "orderNumberFor d orderCount =
     (let year = sliceLast2 (toString (fullYear d));
          month = padStart 2 (CHR ''0'') (toString (month d + 1));
          day = padStart 2 (CHR ''0'') (toString (date d));
          sequence = padStart 4 (CHR ''0'') (toString (orderCount + 1))
      in ''ORD'' @ year @ month @ day @ sequence)"

definition preSave :: "order list \<Rightarrow> bool \<Rightarrow> order \<Rightarrow> jsdate \<Rightarrow> order" where
  "preSave stored isNew doc now =
     (if isNew
      then doc\<lparr>orderNumber :=
                 orderNumberFor now (countDocuments stored (restaurantId doc) now)\<rparr>
      else doc)"

section \<open>The database and the persistence layer\<close>

text \<open>
  The collections the order routes touch.  Orders are kept in insertion order and are
  never deleted by any route; the \<open>_id\<close> of an order is its position in the collection.
\<close>

record db =
  dishes :: "objectId \<rightharpoonup> dish"
  tables :: "objectId \<rightharpoonup> table"
  restaurants :: "objectId \<rightharpoonup> restaurant"
  orders :: "order list"

text \<open>
  The error kinds of the responses.  \<open>InvalidReference\<close>: "Dish ... not found or does
  not belong to this restaurant"; \<open>ItemUnavailable\<close>: "is not available" and "is out of
  stock"; \<open>NotFound\<close>: the 404 responses; \<open>InvalidStateTransition\<close>: "Order cannot be
  cancelled in current status"; \<open>ValidationError\<close>: a request or schema validator
  failed; \<open>DuplicateKey\<close>: the unique index on \<open>orderNumber\<close> rejected the insert;
  \<open>ServerError\<close>: an exception in the handler.  No route produces
  \<open>TableUnavailable\<close>.
\<close>

datatype error =
  ValidationError | InvalidReference | ItemUnavailable | NotFound | TableUnavailable
  | InvalidStateTransition | DuplicateKey | ServerError

definition findById :: "order list \<Rightarrow> objectId \<Rightarrow> order option" where
  "findById os i = (if i < length os then Some (os ! i) else None)"

definition saveOrder :: "db \<Rightarrow> objectId \<Rightarrow> order \<Rightarrow> db" where
  "saveOrder d i ord = d\<lparr>orders := (orders d)[i := ord]\<rparr>"

text \<open>
  The validators of the order schema that a document built by the routes can fail:
  \<open>required\<close> on \<open>orderNumber\<close> (a string path is required to be present and not
  empty; an unset \<open>orderNumber\<close> is the empty string here) and the \<open>min\<close> validators.
\<close>

definition validOrder :: "order \<Rightarrow> bool" where
  "validOrder doc =
     (orderNumber doc \<noteq> []
      \<and> 0 \<le> subtotal doc \<and> 0 \<le> taxAmount doc \<and> 0 \<le> serviceCharge doc \<and> 0 \<le> deliveryFee doc
      \<and> 0 \<le> discountAmount doc \<and> 0 \<le> totalAmount doc
      \<and> list_all (\<lambda>item. 1 \<le> quantity item) (items doc))"

text \<open>
  \<open>Order.create\<close>.  Mongoose validates a document in a built-in \<open>pre('save')\<close> hook
  that runs before the hooks of the schema: first the validators, then the
  order-number hook, then the insert, which the unique index on \<open>orderNumber\<close> may
  reject.  A document that comes without \<open>orderNumber\<close> is therefore refused before
  the hook that would number it has run.
\<close>

definition Order_create :: "db \<Rightarrow> order \<Rightarrow> jsdate \<Rightarrow> error + (db \<times> order)" where
  "Order_create d doc now =
     (if \<not> validOrder doc then Inl ValidationError
      else let doc' = preSave (orders d) True doc now
           in if orderNumber doc' \<in> set (map orderNumber (orders d)) then Inl DuplicateKey
              else Inr (d\<lparr>orders := orders d @ [doc']\<rparr>, doc'))"

section \<open>The order routes (src/routes/orders.js)\<close>

text \<open>
  Every handler takes the database and returns the database it leaves behind together
  with its response: the writes of a handler are separate, so an error after a write
  does not undo it.
\<close>

subsection \<open>POST /api/orders\<close>

record item_req =
  dishId_r :: objectId
  quantity_r :: int
  customizations_r :: "customization list option"
  specialInstructions_r :: "string option"

record create_req =
  restaurantId_q :: objectId
  orderType_q :: order_type
  items_q :: "item_req list"
  paymentMethod_q :: payment_method
  tableId_q :: "objectId option"
  deliveryAddress_q :: "string option"
  deliveryInstructions_q :: "string option"
  specialInstructions_q :: "string option"

text \<open>\<open>customization.price || 0\<close>\<close>

definition priceOr0 :: "customization \<Rightarrow> rat" where
  "priceOr0 c = (case price_c c of None \<Rightarrow> 0 | Some p \<Rightarrow> p)"

text \<open>The inner loop: \<open>itemTotal += customization.price || 0\<close> for each customization.\<close>

definition addCustomizations :: "rat \<Rightarrow> customization list option \<Rightarrow> rat" where
  "addCustomizations itemTotal cs =
     (case cs of None \<Rightarrow> itemTotal
      | Some l \<Rightarrow> foldl (\<lambda>t c. jsAdd t (priceOr0 c)) itemTotal l)"

text \<open>
  The validation loop, with its two accumulators \<open>subtotal\<close> and \<open>validatedItems\<close>.
  The stored \<open>dishId\<close> is \<open>dish._id\<close>, the key the dish was found under.
\<close>

fun validateItems ::
  "(objectId \<rightharpoonup> dish) \<Rightarrow> objectId \<Rightarrow> item_req list \<Rightarrow> rat \<Rightarrow> order_item list
   \<Rightarrow> error + (rat \<times> order_item list)" where
  "validateItems ds rid [] sub validatedItems = Inr (sub, validatedItems)"
| "validateItems ds rid (item # rest) sub validatedItems =
     (case ds (dishId_r item) of
        None \<Rightarrow> Inl InvalidReference
      | Some dish \<Rightarrow>
          if restaurantId_d dish \<noteq> rid then Inl InvalidReference
          else if \<not> isAvailable_d dish then Inl ItemUnavailable
          else if isOutOfStock dish then Inl ItemUnavailable
          else
            let itemTotal = addCustomizations (jsMul (price_d dish) (of_int (quantity_r item)))
                              (customizations_r item)
            in validateItems ds rid rest (jsAdd sub itemTotal)
                 (validatedItems @
                  [\<lparr>dishId = dishId_r item, name_i = name_d dish, price_i = price_d dish,
                    quantity = quantity_r item,
                    customizations =
                      (case customizations_r item of None \<Rightarrow> [] | Some l \<Rightarrow> l),
                    specialInstructions_i = specialInstructions_r item,
                    totalPrice = itemTotal\<rparr>]))"

text \<open>"Update table status if dine-in": the result of \<open>occupy\<close> is not looked at.\<close>

definition occupyTable :: "db \<Rightarrow> order_type \<Rightarrow> objectId option \<Rightarrow> objectId \<Rightarrow> db" where
  "occupyTable d ot tid orderId =
     (if ot = Dine_in then
        (case tid of
           None \<Rightarrow> d
         | Some t \<Rightarrow>
             (case tables d t of
                None \<Rightarrow> d
              | Some tbl \<Rightarrow> d\<lparr>tables := (tables d)(t \<mapsto> fst (occupy tbl orderId))\<rparr>))
      else d)"

text \<open>
  "Update dish stock": the dish is fetched again and used without a null check, so a
  missing dish ends the handler with an exception, after the earlier writes.
\<close>

fun decrementStock :: "db \<Rightarrow> order_item list \<Rightarrow> db \<times> error option" where
  "decrementStock d [] = (d, None)"
| "decrementStock d (item # rest) =
     (case dishes d (dishId item) of
        None \<Rightarrow> (d, Some ServerError)
      | Some dish \<Rightarrow>
          decrementStock
            (d\<lparr>dishes := (dishes d)(dishId item \<mapsto> updateStock dish (- quantity item))\<rparr>)
            rest)"

text \<open>
  The charges and the object handed to \<open>Order.create\<close>.  The handler sets no
  \<open>orderNumber\<close>; \<open>discountAmount\<close>, \<open>status\<close> and \<open>statusHistory\<close> take the defaults
  of the schema, \<open>_id\<close> and \<open>createdAt\<close> are given at construction.
\<close>

definition orderDocument ::
  "db \<Rightarrow> objectId \<Rightarrow> create_req \<Rightarrow> jsdate \<Rightarrow> rat \<Rightarrow> order_item list \<Rightarrow> restaurant \<Rightarrow> order"
  where
  "orderDocument d user req now sub validatedItems rst =
     (let tax = jsDiv (jsMul sub (taxRate rst)) 100;
          service = jsDiv (jsMul sub (serviceCharge_s rst)) 100;
          fee = (if orderType_q req = Delivery then deliveryFee_s rst else 0);
          total = jsAdd (jsAdd (jsAdd sub tax) service) fee
      in \<lparr>oid = length (orders d), orderNumber = [],
          restaurantId = restaurantId_q req, customerId = user,
          tableId = tableId_q req, orderType = orderType_q req,
          items = validatedItems, subtotal = sub, taxAmount = tax,
          serviceCharge = service, deliveryFee = fee,
          discountAmount = 0, totalAmount = total,
          status = Pending, statusHistory = [],
          paymentMethod = paymentMethod_q req,
          deliveryAddress = deliveryAddress_q req,
          deliveryInstructions = deliveryInstructions_q req,
          specialInstructions = specialInstructions_q req,
          actualDeliveryTime = None, cancellationReason = None,
          cancelledBy = None, cancelledAt = None, createdAt = now\<rparr>)"

text \<open>
  The handler from "Validate items and calculate totals" up to the call of
  \<open>Order.create\<close>: an error response, or the document it is about to create.
\<close>

definition priceOrder :: "db \<Rightarrow> objectId \<Rightarrow> create_req \<Rightarrow> jsdate \<Rightarrow> error + order" where
  "priceOrder d user req now =
     (case validateItems (dishes d) (restaurantId_q req) (items_q req) 0 [] of
        Inl e \<Rightarrow> Inl e
      | Inr (sub, validatedItems) \<Rightarrow>
          (case restaurants d (restaurantId_q req) of
             None \<Rightarrow> Inl NotFound
           | Some rst \<Rightarrow> Inr (orderDocument d user req now sub validatedItems rst)))"

text \<open>
  The rest of the handler once \<open>Order.create\<close> has returned the stored order: the
  table, the stock, and the response 201 with the order.
\<close>

definition finishOrder ::
  "db \<Rightarrow> create_req \<Rightarrow> order \<Rightarrow> order_item list \<Rightarrow> db \<times> (error + order)" where
  "finishOrder d1 req ord validatedItems =
     (case decrementStock (occupyTable d1 (orderType_q req) (tableId_q req) (oid ord))
             validatedItems of
        (d3, Some e) \<Rightarrow> (d3, Inl e)
      | (d3, None) \<Rightarrow> (d3, Inr ord))"

text \<open>
  The whole handler: the request validators, the pricing, \<open>Order.create\<close>, and the
  rest (the stock loop runs over \<open>validatedItems\<close>, the items of the document).  An
  exception of \<open>Order.create\<close> ends the handler with an error response.
\<close>

definition createOrder ::
  "db \<Rightarrow> objectId \<Rightarrow> create_req \<Rightarrow> jsdate \<Rightarrow> db \<times> (error + order)" where
  "createOrder d user req now =
     (if items_q req = [] \<or> \<not> list_all (\<lambda>item. 1 \<le> quantity_r item) (items_q req)
      then (d, Inl ValidationError)
      else
        (case priceOrder d user req now of
           Inl e \<Rightarrow> (d, Inl e)
         | Inr doc \<Rightarrow>
             (case Order_create d doc now of
                Inl e \<Rightarrow> (d, Inl e)
              | Inr (d1, ord) \<Rightarrow> finishOrder d1 req ord (items doc))))"

subsection \<open>PUT /api/orders/:id/status\<close>

definition setOrderStatus ::
  "db \<Rightarrow> objectId \<Rightarrow> objectId \<Rightarrow> order_status \<Rightarrow> string option \<Rightarrow> jsdate
   \<Rightarrow> db \<times> (error + order)" where
  "setOrderStatus d user i newStatus notesArg now =
     (case findById (orders d) i of
        None \<Rightarrow> (d, Inl NotFound)
      | Some ord \<Rightarrow>
          let o1 = updateStatus ord newStatus user notesArg now;
              o2 = (if newStatus = Delivered \<or> newStatus = Completed
                    then o1\<lparr>actualDeliveryTime := Some now\<rparr> else o1);
              o3 = (if newStatus = Cancelled \<or> newStatus = Rejected
                    then o2\<lparr>cancelledBy := Some user, cancelledAt := Some now\<rparr> else o2)
          in (saveOrder d i o3, Inr o3))"

subsection \<open>PUT /api/orders/:id/cancel\<close>

text \<open>"Restore dish stock": a dish that no longer exists is skipped.\<close>

fun restoreStock :: "db \<Rightarrow> order_item list \<Rightarrow> db" where
  "restoreStock d [] = d"
| "restoreStock d (item # rest) =
     (case dishes d (dishId item) of
        None \<Rightarrow> restoreStock d rest
      | Some dish \<Rightarrow>
          restoreStock
            (d\<lparr>dishes := (dishes d)(dishId item \<mapsto> updateStock dish (quantity item))\<rparr>)
            rest)"

text \<open>"Free table if dine-in"\<close>

definition freeTable :: "db \<Rightarrow> order \<Rightarrow> db" where
  "freeTable d ord =
     (if orderType ord = Dine_in then
        (case tableId ord of
           None \<Rightarrow> d
         | Some t \<Rightarrow>
             (case tables d t of
                None \<Rightarrow> d
              | Some tbl \<Rightarrow> d\<lparr>tables := (tables d)(t \<mapsto> free tbl)\<rparr>))
      else d)"

definition cancelOrder ::
  "db \<Rightarrow> objectId \<Rightarrow> objectId \<Rightarrow> string option \<Rightarrow> jsdate \<Rightarrow> db \<times> (error + order)" where
  "cancelOrder d user i reason now =
     (case findById (orders d) i of
        None \<Rightarrow> (d, Inl NotFound)
      | Some ord \<Rightarrow>
          if status ord \<in> set [Delivered, Completed, Cancelled, Rejected]
          then (d, Inl InvalidStateTransition)
          else
            let o1 = (updateStatus ord Cancelled user reason now)
                       \<lparr>cancellationReason := reason, cancelledBy := Some user,
                        cancelledAt := Some now\<rparr>
            in (freeTable (restoreStock (saveOrder d i o1) (items o1)) o1, Inr o1))"

section \<open>The stock route (PUT /api/dishes/:id/stock)\<close>

datatype stock_operation = Add | Subtract | Set_to

definition applyStockOperation :: "dish \<Rightarrow> int \<Rightarrow> stock_operation \<Rightarrow> dish" where
  "applyStockOperation dish qty operation =
     (case operation of
        Add \<Rightarrow> updateStock dish qty
      | Subtract \<Rightarrow> updateStock dish (- qty)
      | Set_to \<Rightarrow> checkStockStatus (dish\<lparr>stockQuantity := qty\<rparr>))"

text \<open>
  \<open>dish.save()\<close> runs the schema validator \<open>min: 0\<close> of \<open>stockQuantity\<close>; a dish that
  fails it is not written.
\<close>

definition updateDishStock ::
  "db \<Rightarrow> objectId \<Rightarrow> int \<Rightarrow> stock_operation \<Rightarrow> db \<times> (error + dish)" where
  "updateDishStock d i qty operation =
     (case dishes d i of
        None \<Rightarrow> (d, Inl NotFound)
      | Some dish \<Rightarrow>
          let dish' = applyStockOperation dish qty operation
          in if stockQuantity dish' < 0 then (d, Inl ValidationError)
             else (d\<lparr>dishes := (dishes d)(i \<mapsto> dish')\<rparr>, Inr dish'))"

section \<open>Sequences of requests\<close>

text \<open>
  The requests that write to the collections above, and the database a server leaves
  behind after handling a list of them one after the other.
\<close>

datatype request =
  CreateOrder objectId create_req jsdate
  | SetOrderStatus objectId objectId order_status "string option" jsdate
  | CancelOrder objectId objectId "string option" jsdate
  | UpdateDishStock objectId int stock_operation

fun handle :: "db \<Rightarrow> request \<Rightarrow> db" where
  "handle d (CreateOrder user req now) = fst (createOrder d user req now)"
| "handle d (SetOrderStatus user i newStatus notesArg now) =
     fst (setOrderStatus d user i newStatus notesArg now)"
| "handle d (CancelOrder user i reason now) = fst (cancelOrder d user i reason now)"
| "handle d (UpdateDishStock i qty operation) = fst (updateDishStock d i qty operation)"

definition run :: "db \<Rightarrow> request list \<Rightarrow> db" where
  "run d reqs = foldl handle d reqs"

section \<open>Quantities of the claims\<close>

text \<open>The quantity an order holds of one dish: the sum over its lines for that dish.\<close>

definition orderedQuantity :: "objectId \<Rightarrow> order_item list \<Rightarrow> int" where
  "orderedQuantity k its = sum_list (map quantity (filter (\<lambda>item. dishId item = k) its))"

text \<open>
  An amount agrees with \<open>c\<close> cents at two-decimal currency precision when \<open>c\<close> is the
  nearest whole number of cents (halves rounded up).
\<close>

definition roundsToCents :: "rat \<Rightarrow> int \<Rightarrow> bool" where
  "roundsToCents x c = (of_int c \<le> x * 100 + 1 / 2 \<and> x * 100 + 1 / 2 < of_int c + 1)"

section \<open>A concrete restaurant\<close>

text \<open>
  One restaurant (tax 8.5 percent, service charge 10 percent, flat delivery fee 3), one
  dish at 12.99 with 10 in stock, tables in three states, no order yet, and a dine-in
  request for two portions with one customization of 1.50.
\<close>

definition ex_dish :: dish where
  "ex_dish = \<lparr>name_d = ''Margherita'', restaurantId_d = 1, price_d = jsNumber (1299 / 100),
              isAvailable_d = True, stockQuantity = 10, lowStockThreshold = 3,
              isLowStock = False, isOutOfStock = False\<rparr>"

definition ex_table :: "table_status \<Rightarrow> objectId option \<Rightarrow> table" where
  "ex_table st cur = \<lparr>tableNumber = ''T1'', restaurantId_t = 1, capacity = 4,
                      status_t = st, currentOrder = cur, isActive = True\<rparr>"

definition ex_restaurant :: restaurant where
  "ex_restaurant = \<lparr>taxRate = 17 / 2, serviceCharge_s = 10, deliveryFee_s = 3\<rparr>"

definition ex_db :: db where
  "ex_db = \<lparr>dishes = [7 \<mapsto> ex_dish],
            tables = [1 \<mapsto> ex_table Available None, 2 \<mapsto> ex_table Occupied (Some 40),
                      3 \<mapsto> ex_table Reserved None],
            restaurants = [1 \<mapsto> ex_restaurant],
            orders = []\<rparr>"

definition ex_item :: item_req where
  "ex_item = \<lparr>dishId_r = 7, quantity_r = 2,
              customizations_r =
                Some [\<lparr>name_c = ''Cheese'', option_c = ''Extra'', price_c = Some (3 / 2)\<rparr>],
              specialInstructions_r = None\<rparr>"

definition ex_req :: "order_type \<Rightarrow> objectId option \<Rightarrow> create_req" where
  "ex_req ot tid = \<lparr>restaurantId_q = 1, orderType_q = ot, items_q = [ex_item],
                    paymentMethod_q = Cash, tableId_q = tid, deliveryAddress_q = None,
                    deliveryInstructions_q = None, specialInstructions_q = None\<rparr>"

definition ex_now :: jsdate where
  "ex_now = \<lparr>fullYear = 2026, month = 10, date = 3, msOfDay = 43200000\<rparr>"

definition ex_later :: jsdate where
  "ex_later = \<lparr>fullYear = 2026, month = 10, date = 3, msOfDay = 45000000\<rparr>"

definition ex_requests :: "request list" where
  "ex_requests = [CreateOrder 5 (ex_req Dine_in (Some 1)) ex_now,
                  SetOrderStatus 9 0 Confirmed None ex_later,
                  CreateOrder 6 (ex_req Takeout None) ex_later]"

text \<open>
  A database that holds one order: a pending dine-in order of customer 5 at table 1 for
  two portions of dish 7, which has sold out since and whose low-stock threshold is 1.
\<close>

definition ex_line :: order_item where
  "ex_line = \<lparr>dishId = 7, name_i = ''Margherita'', price_i = jsNumber (1299 / 100),
              quantity = 2,
              customizations =
                [\<lparr>name_c = ''Cheese'', option_c = ''Extra'', price_c = Some (3 / 2)\<rparr>],
              specialInstructions_i = None, totalPrice = jsNumber (2748 / 100)\<rparr>"

definition ex_order :: order where
  "ex_order = \<lparr>oid = 0, orderNumber = ''ORD2611030001'', restaurantId = 1, customerId = 5,
               tableId = Some 1, orderType = Dine_in, items = [ex_line],
               subtotal = jsNumber (2748 / 100),
               taxAmount = jsNumber (23358000000000003 / 10000000000000000),
               serviceCharge = jsNumber (2748 / 1000), deliveryFee = 0, discountAmount = 0,
               totalAmount = jsNumber (325638 / 10000), status = Pending,
               statusHistory = [], paymentMethod = Cash, deliveryAddress = None,
               deliveryInstructions = None, specialInstructions = None,
               actualDeliveryTime = None, cancellationReason = None, cancelledBy = None,
               cancelledAt = None, createdAt = ex_now\<rparr>"

definition ex_dish_out :: dish where
  "ex_dish_out = ex_dish\<lparr>stockQuantity := 0, lowStockThreshold := 1, isLowStock := True,
                         isOutOfStock := True\<rparr>"

definition ex_db1 :: db where
  "ex_db1 = \<lparr>dishes = [7 \<mapsto> ex_dish_out],
             tables = [1 \<mapsto> ex_table Occupied (Some 0), 2 \<mapsto> ex_table Occupied (Some 40),
                       3 \<mapsto> ex_table Reserved None],
             restaurants = [1 \<mapsto> ex_restaurant],
             orders = [ex_order]\<rparr>"

text \<open>
  States reached from \<open>ex_db1\<close>: after staff member 9 has marked the order delivered,
  confirmed or cancelled through the status route, and after customer 5 has cancelled it
  through the cancel route.
\<close>

definition ex_delivered :: db where
  "ex_delivered = fst (setOrderStatus ex_db1 9 0 Delivered None ex_later)"

definition ex_confirmed :: "db \<times> (error + order)" where
  "ex_confirmed = setOrderStatus ex_db1 9 0 Confirmed (Some ''table 1'') ex_later"

definition ex_status_cancelled :: "db \<times> (error + order)" where
  "ex_status_cancelled = setOrderStatus ex_db1 9 0 Cancelled None ex_later"

definition ex_cancelled :: "db \<times> (error + order)" where
  "ex_cancelled = cancelOrder ex_db1 5 0 (Some ''changed my mind'') ex_later"

section \<open>Evaluation of the concrete restaurant\<close>

lemmas ex_defs =
  ex_dish_def ex_table_def ex_restaurant_def ex_db_def ex_item_def ex_req_def ex_now_def
  ex_later_def ex_line_def ex_order_def ex_dish_out_def ex_db1_def

lemma floor_rat_numeral:
  "\<lfloor>numeral a / numeral b :: rat\<rfloor> = numeral a div numeral b"
  by (metis floor_divide_of_int_eq of_int_numeral)

lemmas double_defs =
  jsNumber_def jsAdd_def jsSub_def jsMul_def jsDiv_def toDouble_def scale.simps
  roundHalfEven_def pow2_def floor_rat_numeral Let_def

lemma ex_db1_orders: "orders ex_db1 = [ex_order]"
  by (simp add: ex_db1_def)

lemma ex_db1_dishes: "dishes ex_db1 = [7 \<mapsto> ex_dish_out]"
  by (simp add: ex_db1_def)

lemma ex_db1_tables:
  "tables ex_db1 = [1 \<mapsto> ex_table Occupied (Some 0), 2 \<mapsto> ex_table Occupied (Some 40),
                    3 \<mapsto> ex_table Reserved None]"
  by (simp add: ex_db1_def)

lemma ex_order_facts:
  "status ex_order = Pending" "statusHistory ex_order = []" "items ex_order = [ex_line]"
  "orderType ex_order = Dine_in" "tableId ex_order = Some 1"
  by (simp_all add: ex_order_def)

lemma ex_found: "findById (orders ex_db1) 0 = Some ex_order"
  by (simp add: findById_def ex_db1_orders)

section \<open>Frame lemmas\<close>

lemma restoreStock_frame [simp]:
  "tables (restoreStock d its) = tables d"
  "orders (restoreStock d its) = orders d"
  "restaurants (restoreStock d its) = restaurants d"
  by (induction its arbitrary: d) (auto split: option.splits)

lemma decrementStock_frame [simp]:
  "tables (fst (decrementStock d its)) = tables d"
  "orders (fst (decrementStock d its)) = orders d"
  "restaurants (fst (decrementStock d its)) = restaurants d"
  by (induction its arbitrary: d) (auto split: option.splits)

lemma freeTable_frame [simp]:
  "dishes (freeTable d ord) = dishes d"
  "orders (freeTable d ord) = orders d"
  "restaurants (freeTable d ord) = restaurants d"
  by (auto simp: freeTable_def split: option.splits)

lemma occupyTable_frame [simp]:
  "dishes (occupyTable d ot tid k) = dishes d"
  "orders (occupyTable d ot tid k) = orders d"
  "restaurants (occupyTable d ot tid k) = restaurants d"
  by (auto simp: occupyTable_def split: option.splits)

section \<open>Cancelling a finished order\<close>

text \<open>
  C4. When the order's status is delivered, completed, cancelled or rejected, the cancel
  route answers with \<open>InvalidStateTransition\<close> and returns the database as it was: the
  order, every dish and every table are unchanged.
\<close>

theorem cancelOrder_terminal_unchanged:
  assumes "findById (orders d) i = Some ord"
    and "status ord \<in> {Delivered, Completed, Cancelled, Rejected}"
  shows "cancelOrder d user i reason now = (d, Inl InvalidStateTransition)"
  using assms by (auto simp: cancelOrder_def)

lemma ex_delivered_status:
  "map_option status (findById (orders ex_delivered) 0) = Some Delivered"
  by (simp add: ex_delivered_def ex_db1_orders setOrderStatus_def findById_def
        saveOrder_def updateStatus_def Let_def)

theorem cancelOrder_terminal_unchanged_witness:
  "map_option status (findById (orders ex_delivered) 0) = Some Delivered
   \<and> cancelOrder ex_delivered 5 0 (Some ''too late'') ex_later
       = (ex_delivered, Inl InvalidStateTransition)"
proof -
  obtain ord where f: "findById (orders ex_delivered) 0 = Some ord"
    and s: "status ord = Delivered"
    using ex_delivered_status by auto
  from s have "status ord \<in> {Delivered, Completed, Cancelled, Rejected}" by simp
  from cancelOrder_terminal_unchanged [OF f this] ex_delivered_status
  show ?thesis by simp
qed

section \<open>The status history\<close>

text \<open>
  C6. A status change through the status route or the cancel route appends exactly one
  entry to the order's history, holding the new status, the acting user, the note (the
  empty string when none was given) and the time; the entries that were there stay as
  they were and in their order, and no other order is touched.
\<close>

theorem status_history_append:
  "(setOrderStatus d user i newStatus notesArg now = (d', Inr ord') \<longrightarrow>
      (\<exists>ord. findById (orders d) i = Some ord
         \<and> statusHistory ord' = statusHistory ord @
              [\<lparr>status_h = newStatus, timestamp = now, updatedBy = user,
                notes_h = (case notesArg of None \<Rightarrow> [] | Some n \<Rightarrow> n)\<rparr>]
         \<and> orders d' = (orders d)[i := ord']))
   \<and> (cancelOrder d user i reason now = (d', Inr ord') \<longrightarrow>
      (\<exists>ord. findById (orders d) i = Some ord
         \<and> statusHistory ord' = statusHistory ord @
              [\<lparr>status_h = Cancelled, timestamp = now, updatedBy = user,
                notes_h = (case reason of None \<Rightarrow> [] | Some n \<Rightarrow> n)\<rparr>]
         \<and> orders d' = (orders d)[i := ord']))"
  by (auto simp: setOrderStatus_def cancelOrder_def updateStatus_def saveOrder_def Let_def
           split: option.splits if_splits)

lemma ex_confirmed_response:
  "ex_confirmed = (fst ex_confirmed, Inr (projr (snd ex_confirmed)))"
  by (simp add: ex_confirmed_def ex_db1_orders setOrderStatus_def findById_def Let_def)

lemma ex_cancelled_response:
  "ex_cancelled = (fst ex_cancelled, Inr (projr (snd ex_cancelled)))"
  by (simp add: ex_cancelled_def ex_db1_orders ex_order_facts cancelOrder_def
        findById_def Let_def)

theorem status_history_append_witness:
  "setOrderStatus ex_db1 9 0 Confirmed (Some ''table 1'') ex_later
     = (fst ex_confirmed, Inr (projr (snd ex_confirmed)))
   \<and> statusHistory (projr (snd ex_confirmed))
       = [\<lparr>status_h = Confirmed, timestamp = ex_later, updatedBy = 9,
           notes_h = ''table 1''\<rparr>]
   \<and> cancelOrder ex_db1 5 0 (Some ''changed my mind'') ex_later
       = (fst ex_cancelled, Inr (projr (snd ex_cancelled)))
   \<and> statusHistory (projr (snd ex_cancelled))
       = [\<lparr>status_h = Cancelled, timestamp = ex_later, updatedBy = 5,
           notes_h = ''changed my mind''\<rparr>]"
proof -
  have a: "setOrderStatus ex_db1 9 0 Confirmed (Some ''table 1'') ex_later
             = (fst ex_confirmed, Inr (projr (snd ex_confirmed)))"
    using ex_confirmed_response by (simp add: ex_confirmed_def)
  have b: "cancelOrder ex_db1 5 0 (Some ''changed my mind'') ex_later
             = (fst ex_cancelled, Inr (projr (snd ex_cancelled)))"
    using ex_cancelled_response by (simp add: ex_cancelled_def)
  note h = ex_order_facts(2)
  note f = ex_found
  from status_history_append
         [of ex_db1 9 0 Confirmed "Some ''table 1''" ex_later "fst ex_confirmed"
             "projr (snd ex_confirmed)"] a f h
  have c: "statusHistory (projr (snd ex_confirmed))
             = [\<lparr>status_h = Confirmed, timestamp = ex_later, updatedBy = 9,
                 notes_h = ''table 1''\<rparr>]"
    by simp
  from status_history_append
         [of ex_db1 5 0 _ _ ex_later "fst ex_cancelled" "projr (snd ex_cancelled)"
             "Some ''changed my mind''"] b f h
  have e: "statusHistory (projr (snd ex_cancelled))
             = [\<lparr>status_h = Cancelled, timestamp = ex_later, updatedBy = 5,
                 notes_h = ''changed my mind''\<rparr>]"
    by simp
  from a b c e show ?thesis by simp
qed

section \<open>Repeated stock updates\<close>

lemma updateStock_fields [simp]:
  "stockQuantity (updateStock dish q) = max 0 (stockQuantity dish + q)"
  "lowStockThreshold (updateStock dish q) = lowStockThreshold dish"
  "isLowStock (updateStock dish q) = (max 0 (stockQuantity dish + q) \<le> lowStockThreshold dish)"
  "isOutOfStock (updateStock dish q) = (max 0 (stockQuantity dish + q) = 0)"
  "name_d (updateStock dish q) = name_d dish"
  "price_d (updateStock dish q) = price_d dish"
  "restaurantId_d (updateStock dish q) = restaurantId_d dish"
  "isAvailable_d (updateStock dish q) = isAvailable_d dish"
  by (simp_all add: updateStock_def checkStockStatus_def)

lemma updateStock_twice:
  "0 \<le> stockQuantity dish \<Longrightarrow> 0 \<le> p \<Longrightarrow> 0 \<le> q \<Longrightarrow>
   updateStock (updateStock dish p) q = updateStock dish (p + q)"
  by (simp add: updateStock_def checkStockStatus_def max_def add.assoc)

lemma foldl_updateStock_add:
  "0 \<le> stockQuantity dish \<Longrightarrow> \<forall>q\<in>set qs. 0 \<le> q \<Longrightarrow> qs \<noteq> [] \<Longrightarrow>
   foldl updateStock dish qs = updateStock dish (sum_list qs)"
proof (induction qs arbitrary: dish)
  case Nil
  then show ?case by simp
next
  case (Cons q qs)
  show ?case
  proof (cases "qs = []")
    case True
    then show ?thesis by simp
  next
    case False
    have "0 \<le> stockQuantity (updateStock dish q)" by simp
    with Cons False have "foldl updateStock (updateStock dish q) qs
        = updateStock (updateStock dish q) (sum_list qs)"
      by simp
    moreover have "0 \<le> sum_list qs" using Cons.prems by (simp add: sum_list_nonneg)
    ultimately show ?thesis using Cons.prems by (simp add: updateStock_twice)
  qed
qed

section \<open>The effect of the stock loops on one dish\<close>

lemma restoreStock_dishes:
  "dishes (restoreStock d its) k =
     map_option (\<lambda>dish. foldl updateStock dish
                   (map quantity (filter (\<lambda>item. dishId item = k) its)))
       (dishes d k)"
proof (induction its arbitrary: d)
  case Nil
  then show ?case by (simp add: option.map_ident)
next
  case (Cons item rest)
  then show ?case by (cases "dishes d (dishId item)") (auto simp: option.map_ident)
qed

lemma decrementStock_dishes:
  "decrementStock d its = (d', None) \<Longrightarrow>
   dishes d' k =
     map_option (\<lambda>dish. foldl updateStock dish
                   (map (\<lambda>item. - quantity item) (filter (\<lambda>item. dishId item = k) its)))
       (dishes d k)"
proof (induction its arbitrary: d)
  case Nil
  then show ?case by (auto simp: option.map_ident)
next
  case (Cons item rest)
  then show ?case by (cases "dishes d (dishId item)") (auto simp: option.map_ident)
qed

lemma findById_saveOrder:
  "findById (orders d) i = Some ord \<Longrightarrow> findById (orders (saveOrder d i ord')) i = Some ord'"
  by (auto simp: findById_def saveOrder_def split: if_splits)

lemma sum_list_quantities_nonneg:
  "list_all (\<lambda>item. 1 \<le> quantity item) its \<Longrightarrow>
   \<forall>q\<in>set (map quantity (filter (\<lambda>item. dishId item = k) its)). 0 \<le> q"
  by (auto simp: list_all_iff)

lemma restoreStock_adds:
  assumes "dishes d k = Some dish" and "0 \<le> stockQuantity dish"
    and "list_all (\<lambda>item. 1 \<le> quantity item) its"
    and "k \<in> dishId ` set its"
  shows "dishes (restoreStock d its) k =
           Some (dish\<lparr>stockQuantity := stockQuantity dish + orderedQuantity k its,
                      isLowStock := (stockQuantity dish + orderedQuantity k its
                                     \<le> lowStockThreshold dish),
                      isOutOfStock := (stockQuantity dish + orderedQuantity k its = 0)\<rparr>)"
proof -
  let ?qs = "map quantity (filter (\<lambda>item. dishId item = k) its)"
  have nn: "\<forall>q\<in>set ?qs. 0 \<le> q"
    using assms(3) by (rule sum_list_quantities_nonneg)
  have ne: "?qs \<noteq> []"
    using assms(4) by (auto simp: filter_empty_conv)
  have "0 \<le> sum_list ?qs" by (rule sum_list_nonneg) (use nn in blast)
  then have "updateStock dish (sum_list ?qs) =
      dish\<lparr>stockQuantity := stockQuantity dish + sum_list ?qs,
           isLowStock := (stockQuantity dish + sum_list ?qs \<le> lowStockThreshold dish),
           isOutOfStock := (stockQuantity dish + sum_list ?qs = 0)\<rparr>"
    using assms(2) by (simp add: updateStock_def checkStockStatus_def max_def)
  with foldl_updateStock_add [OF assms(2) nn ne] assms(1) show ?thesis
    by (simp add: restoreStock_dishes orderedQuantity_def)
qed

lemma restoreStock_other:
  "k \<notin> dishId ` set its \<Longrightarrow> dishes (restoreStock d its) k = dishes d k"
proof -
  assume "k \<notin> dishId ` set its"
  then have "filter (\<lambda>item. dishId item = k) its = []"
    by (auto simp: filter_empty_conv)
  then show ?thesis by (simp add: restoreStock_dishes option.map_ident)
qed

section \<open>Cancelling an open order\<close>

text \<open>
  C5. For an order whose status is not terminal, the cancel route succeeds and stores
  the order with status cancelled, one history entry appended by \<open>updateStatus\<close>, the
  reason in \<open>cancellationReason\<close> and as the note of that entry (an absent reason
  leaves \<open>cancellationReason\<close> unset and gives the empty note), and the canceller and
  the time stamped.  Every dish of the order, whose stock and line quantities respect
  the schema minimums, gets the order's quantity of it added to its stock, and its two
  flags are set from the new quantity; no other dish changes.  The table of a dine-in
  order becomes available with no current order, whatever it was.
\<close>

theorem cancelOrder_effects:
  assumes "findById (orders d) i = Some ord"
    and "status ord \<notin> {Delivered, Completed, Cancelled, Rejected}"
    and "cancelOrder d user i reason now = (d', resp)"
  shows "\<exists>ord'. resp = Inr ord'
     \<and> ord' = (updateStatus ord Cancelled user reason now)
                \<lparr>cancellationReason := reason, cancelledBy := Some user,
                 cancelledAt := Some now\<rparr>
     \<and> ord' = ord\<lparr>status := Cancelled,
                   statusHistory := statusHistory ord @
                     [\<lparr>status_h = Cancelled, timestamp = now, updatedBy = user,
                       notes_h = (case reason of None \<Rightarrow> [] | Some r \<Rightarrow> r)\<rparr>],
                   cancellationReason := reason, cancelledBy := Some user,
                   cancelledAt := Some now\<rparr>
     \<and> orders d' = (orders d)[i := ord']
     \<and> findById (orders d') i = Some ord'
     \<and> (\<forall>k dish. dishes d k = Some dish \<and> 0 \<le> stockQuantity dish
            \<and> list_all (\<lambda>item. 1 \<le> quantity item) (items ord)
            \<and> k \<in> dishId ` set (items ord) \<longrightarrow>
          dishes d' k =
            Some (dish\<lparr>stockQuantity := stockQuantity dish + orderedQuantity k (items ord),
                       isLowStock := (stockQuantity dish + orderedQuantity k (items ord)
                                      \<le> lowStockThreshold dish),
                       isOutOfStock :=
                         (stockQuantity dish + orderedQuantity k (items ord) = 0)\<rparr>))
     \<and> (\<forall>k. k \<notin> dishId ` set (items ord) \<longrightarrow> dishes d' k = dishes d k)
     \<and> (\<forall>t tbl. orderType ord = Dine_in \<and> tableId ord = Some t \<and> tables d t = Some tbl \<longrightarrow>
          tables d' t = Some (tbl\<lparr>status_t := Available, currentOrder := None\<rparr>))"
proof -
  define ord' where "ord' = (updateStatus ord Cancelled user reason now)
                \<lparr>cancellationReason := reason, cancelledBy := Some user,
                 cancelledAt := Some now\<rparr>"
  have its: "items ord' = items ord" "orderType ord' = orderType ord" "tableId ord' = tableId ord"
    by (simp_all add: ord'_def updateStatus_def)
  from assms have r: "resp = Inr ord'"
    and d': "d' = freeTable (restoreStock (saveOrder d i ord') (items ord)) ord'"
    by (auto simp: cancelOrder_def ord'_def updateStatus_def Let_def)
  have sd: "dishes (saveOrder d i ord') = dishes d" "tables (saveOrder d i ord') = tables d"
    "orders (saveOrder d i ord') = (orders d)[i := ord']"
    by (simp_all add: saveOrder_def)
  have 1: "ord' = ord\<lparr>status := Cancelled,
                   statusHistory := statusHistory ord @
                     [\<lparr>status_h = Cancelled, timestamp = now, updatedBy = user,
                       notes_h = (case reason of None \<Rightarrow> [] | Some r \<Rightarrow> r)\<rparr>],
                   cancellationReason := reason, cancelledBy := Some user,
                   cancelledAt := Some now\<rparr>"
    by (simp add: ord'_def updateStatus_def)
  have o: "orders d' = (orders d)[i := ord']" by (simp add: d' sd)
  have 2: "findById (orders d') i = Some ord'"
    using findById_saveOrder [OF assms(1)] by (simp add: d')
  have 3: "dishes d' k =
            Some (dish\<lparr>stockQuantity := stockQuantity dish + orderedQuantity k (items ord),
                       isLowStock := (stockQuantity dish + orderedQuantity k (items ord)
                                      \<le> lowStockThreshold dish),
                       isOutOfStock :=
                         (stockQuantity dish + orderedQuantity k (items ord) = 0)\<rparr>)"
    if "dishes d k = Some dish" "0 \<le> stockQuantity dish"
       "list_all (\<lambda>item. 1 \<le> quantity item) (items ord)" "k \<in> dishId ` set (items ord)"
    for k dish
    using restoreStock_adds [of "saveOrder d i ord'" k dish "items ord"] that
    by (simp add: d' sd)
  have 4: "dishes d' k = dishes d k" if "k \<notin> dishId ` set (items ord)" for k
    using restoreStock_other [OF that, of "saveOrder d i ord'"] by (simp add: d' sd)
  have 5: "tables d' t = Some (tbl\<lparr>status_t := Available, currentOrder := None\<rparr>)"
    if "orderType ord = Dine_in" "tableId ord = Some t" "tables d t = Some tbl" for t tbl
    using that by (simp add: d' freeTable_def its sd free_def)
  from r 1 o 2 3 4 5 show ?thesis unfolding ord'_def [symmetric] by blast
qed

theorem cancelOrder_effects_witness:
  "findById (orders ex_db1) 0 = Some ex_order
   \<and> status ex_order \<notin> {Delivered, Completed, Cancelled, Rejected}
   \<and> cancelOrder ex_db1 5 0 (Some ''changed my mind'') ex_later
        = (fst ex_cancelled, snd ex_cancelled)
   \<and> map_sum id status (snd ex_cancelled) = Inr Cancelled
   \<and> map_sum id cancellationReason (snd ex_cancelled) = Inr (Some ''changed my mind'')
   \<and> map_sum id statusHistory (snd ex_cancelled)
        = Inr [\<lparr>status_h = Cancelled, timestamp = ex_later, updatedBy = 5,
                notes_h = ''changed my mind''\<rparr>]
   \<and> map_option status (findById (orders (fst ex_cancelled)) 0) = Some Cancelled
   \<and> map_option (\<lambda>dish. (stockQuantity dish, isLowStock dish, isOutOfStock dish))
        (dishes ex_db1 7) = Some (0, True, True)
   \<and> map_option (\<lambda>dish. (stockQuantity dish, isLowStock dish, isOutOfStock dish))
        (dishes (fst ex_cancelled) 7) = Some (2, False, False)
   \<and> tables ex_db1 1 = Some (ex_table Occupied (Some 0))
   \<and> tables (fst ex_cancelled) 1 = Some (ex_table Available None)"
proof -
  have s: "status ex_order \<notin> {Delivered, Completed, Cancelled, Rejected}"
    by (simp add: ex_order_facts)
  have c: "cancelOrder ex_db1 5 0 (Some ''changed my mind'') ex_later
        = (fst ex_cancelled, snd ex_cancelled)"
    by (simp add: ex_cancelled_def)
  have dk: "dishes ex_db1 7 = Some ex_dish_out"
    by (simp add: ex_db1_dishes)
  have tk: "tables ex_db1 1 = Some (ex_table Occupied (Some 0))"
    by (simp add: ex_db1_tables)
  from cancelOrder_effects [OF ex_found s c] dk tk ex_found s c show ?thesis
    by (auto simp: ex_order_facts orderedQuantity_def ex_dish_out_def ex_dish_def
          ex_table_def ex_line_def)
qed

section \<open>Cancelling through the status route\<close>

text \<open>
  C10. Setting the status to cancelled or rejected through the status route stores the
  order with the new status, \<open>cancelledBy\<close> and \<open>cancelledAt\<close> stamped and one history
  entry appended, and leaves every dish and every table as they were: the stock is not
  restored and the table is not freed.
\<close>

theorem setOrderStatus_no_compensation:
  assumes "setOrderStatus d user i newStatus notesArg now = (d', Inr ord')"
    and "newStatus = Cancelled \<or> newStatus = Rejected"
  shows "(\<exists>ord. findById (orders d) i = Some ord
            \<and> ord' = ord\<lparr>status := newStatus,
                          statusHistory := statusHistory ord @
                            [\<lparr>status_h = newStatus, timestamp = now, updatedBy = user,
                              notes_h = (case notesArg of None \<Rightarrow> [] | Some n \<Rightarrow> n)\<rparr>],
                          cancelledBy := Some user, cancelledAt := Some now\<rparr>)
         \<and> cancelledBy ord' = Some user \<and> cancelledAt ord' = Some now
         \<and> orders d' = (orders d)[i := ord']
         \<and> findById (orders d') i = Some ord'
         \<and> dishes d' = dishes d \<and> tables d' = tables d"
  using assms
  by (auto simp: setOrderStatus_def updateStatus_def saveOrder_def findById_def Let_def
           split: option.splits if_splits)

lemma ex_status_cancelled_response:
  "ex_status_cancelled = (fst ex_status_cancelled, Inr (projr (snd ex_status_cancelled)))"
  by (simp add: ex_status_cancelled_def ex_db1_orders setOrderStatus_def findById_def Let_def)

theorem setOrderStatus_no_compensation_witness:
  "setOrderStatus ex_db1 9 0 Cancelled None ex_later
     = (fst ex_status_cancelled, Inr (projr (snd ex_status_cancelled)))
   \<and> map_option (\<lambda>ord. (status ord, cancelledBy ord, cancelledAt ord, statusHistory ord))
        (findById (orders (fst ex_status_cancelled)) 0)
       = Some (Cancelled, Some 9, Some ex_later,
               [\<lparr>status_h = Cancelled, timestamp = ex_later, updatedBy = 9, notes_h = []\<rparr>])
   \<and> dishes (fst ex_status_cancelled) 7 = Some ex_dish_out
   \<and> tables (fst ex_status_cancelled) 1 = Some (ex_table Occupied (Some 0))
   \<and> map_option stockQuantity (dishes (fst ex_cancelled) 7) = Some 2
   \<and> tables (fst ex_cancelled) 1 = Some (ex_table Available None)"
proof -
  have a: "setOrderStatus ex_db1 9 0 Cancelled None ex_later
     = (fst ex_status_cancelled, Inr (projr (snd ex_status_cancelled)))"
    using ex_status_cancelled_response by (simp add: ex_status_cancelled_def)
  have c: "map_option stockQuantity (dishes (fst ex_cancelled) 7) = Some 2
   \<and> tables (fst ex_cancelled) 1 = Some (ex_table Available None)"
    by (simp add: ex_cancelled_def cancelOrder_def findById_def ex_db1_orders ex_order_facts
          Let_def updateStatus_def saveOrder_def ex_db1_dishes ex_db1_tables ex_line_def
          freeTable_def free_def ex_table_def ex_dish_out_def ex_dish_def updateStock_def
          checkStockStatus_def)
  from setOrderStatus_no_compensation [OF a] a c ex_found show ?thesis
    by (auto simp: ex_db1_dishes ex_db1_tables ex_order_facts)
qed

section \<open>Creating an order\<close>

text \<open>
  The document the handler builds has no \<open>orderNumber\<close>, and \<open>Order.create\<close> refuses
  it: the route never gets past \<open>Order.create\<close>, and answers with an error.
\<close>

lemma priceOrder_orderNumber:
  "priceOrder d user req now = Inr doc \<Longrightarrow> orderNumber doc = []"
  by (auto simp: priceOrder_def orderDocument_def Let_def split: sum.splits option.splits)

lemma Order_create_unnumbered:
  "orderNumber doc = [] \<Longrightarrow> Order_create d doc now = Inl ValidationError"
  by (simp add: Order_create_def validOrder_def)

lemma createOrder_response:
  "createOrder d user req now =
     (d, Inl (if items_q req = [] \<or> \<not> list_all (\<lambda>item. 1 \<le> quantity_r item) (items_q req)
              then ValidationError
              else case priceOrder d user req now of
                     Inl e \<Rightarrow> e
                   | Inr doc \<Rightarrow> ValidationError))"
  by (auto simp: createOrder_def Order_create_unnumbered priceOrder_orderNumber
           split: sum.splits)

lemma validateItems_not_TableUnavailable:
  "validateItems ds rid its sub acc \<noteq> Inl TableUnavailable"
  by (induction its arbitrary: sub acc) (auto simp: Let_def split: option.splits)

lemma priceOrder_tables [simp]:
  "priceOrder (d\<lparr>tables := ts\<rparr>) user req now = priceOrder d user req now"
  by (auto simp: priceOrder_def orderDocument_def split: sum.splits option.splits)

lemma ex_priceOrder:
  "\<exists>doc. priceOrder ex_db 5 (ex_req ot tid) now = Inr doc"
  by (simp add: priceOrder_def ex_db_def ex_req_def ex_item_def ex_dish_def Let_def)

lemma ex_createOrder:
  "createOrder ex_db 5 (ex_req ot tid) now = (ex_db, Inl ValidationError)"
proof -
  obtain doc where "priceOrder ex_db 5 (ex_req ot tid) now = Inr doc"
    using ex_priceOrder by blast
  then show ?thesis by (simp add: createOrder_response)
qed

subsection \<open>The table of a dine-in order\<close>

text \<open>
  C1, as the claim states it, fails.  Ordering at the occupied table 2 is answered with
  \<open>ValidationError\<close>, not \<open>TableUnavailable\<close>, exactly as ordering at the available
  table 1 is; and after ordering at table 1 that table is still available and holds no
  order.
\<close>

theorem createOrder_table_counterexample:
  "tables ex_db 2 = Some (ex_table Occupied (Some 40))
   \<and> createOrder ex_db 5 (ex_req Dine_in (Some 2)) ex_now = (ex_db, Inl ValidationError)
   \<and> snd (createOrder ex_db 5 (ex_req Dine_in (Some 2)) ex_now) \<noteq> Inl TableUnavailable
   \<and> tables ex_db 1 = Some (ex_table Available None)
   \<and> createOrder ex_db 5 (ex_req Dine_in (Some 1)) ex_now = (ex_db, Inl ValidationError)
   \<and> tables (fst (createOrder ex_db 5 (ex_req Dine_in (Some 1)) ex_now)) 1
       = Some (ex_table Available None)"
  by (simp add: ex_createOrder) (simp add: ex_db_def)

lemma fst_finishOrder:
  "fst (finishOrder d1 req ord vs)
     = fst (decrementStock (occupyTable d1 (orderType_q req) (tableId_q req) (oid ord)) vs)"
  by (simp add: finishOrder_def split: prod.splits option.splits)

lemma snd_finishOrder:
  "snd (finishOrder d1 req ord vs)
     = (case snd (decrementStock
                    (occupyTable d1 (orderType_q req) (tableId_q req) (oid ord)) vs) of
          Some e \<Rightarrow> Inl e | None \<Rightarrow> Inr ord)"
  by (simp add: finishOrder_def split: prod.splits option.splits)

lemma decrementStock_response:
  "dishes d = dishes d2 \<Longrightarrow> snd (decrementStock d its) = snd (decrementStock d2 its)"
proof (induction its arbitrary: d d2)
  case Nil
  then show ?case by simp
next
  case (Cons item rest)
  show ?case
  proof (cases "dishes d (dishId item)")
    case None
    with Cons.prems show ?thesis by simp
  next
    case (Some dish)
    with Cons.prems Cons.IH
           [of "d\<lparr>dishes := (dishes d)(dishId item \<mapsto> updateStock dish (- quantity item))\<rparr>"
               "d2\<lparr>dishes := (dishes d2)(dishId item \<mapsto> updateStock dish (- quantity item))\<rparr>"]
    show ?thesis by simp
  qed
qed

text \<open>
  C1, amended.  No response of the route is \<open>TableUnavailable\<close>, and the response does
  not depend on the tables at all: an occupied table is no reason to refuse an order.
  The rest of the handler after \<open>Order.create\<close> calls \<open>occupy\<close> and does not look at its
  result, so that its response does not depend on the tables either: a table that is
  available or reserved becomes occupied and holds the order's identifier; for a table
  in any other status, occupied included, \<open>occupy\<close> returns false and the tables are
  left as they were.
\<close>

theorem createOrder_ignores_table_status:
  "snd (createOrder d user req now) \<noteq> Inl TableUnavailable
   \<and> snd (createOrder (d\<lparr>tables := ts\<rparr>) user req now) = snd (createOrder d user req now)
   \<and> snd (finishOrder (d1\<lparr>tables := ts\<rparr>) req ord vs) = snd (finishOrder d1 req ord vs)
   \<and> (orderType_q req = Dine_in \<and> tableId_q req = Some t \<and> tables d1 t = Some tbl
        \<and> (status_t tbl = Available \<or> status_t tbl = Reserved) \<longrightarrow>
        occupy tbl (oid ord)
          = (tbl\<lparr>status_t := Occupied, currentOrder := Some (oid ord)\<rparr>, True)
        \<and> tables (fst (finishOrder d1 req ord vs))
            = (tables d1)(t \<mapsto> tbl\<lparr>status_t := Occupied, currentOrder := Some (oid ord)\<rparr>))
   \<and> (orderType_q req = Dine_in \<and> tableId_q req = Some t \<and> tables d1 t = Some tbl
        \<and> status_t tbl \<noteq> Available \<and> status_t tbl \<noteq> Reserved \<longrightarrow>
        occupy tbl (oid ord) = (tbl, False)
        \<and> tables (fst (finishOrder d1 req ord vs)) = tables d1)"
proof -
  have 1: "snd (createOrder d user req now) \<noteq> Inl TableUnavailable"
    using validateItems_not_TableUnavailable
            [of "dishes d" "restaurantId_q req" "items_q req" 0 "[]"]
    by (auto simp: createOrder_response priceOrder_def split: sum.splits option.splits)
  have 2: "snd (createOrder (d\<lparr>tables := ts\<rparr>) user req now)
             = snd (createOrder d user req now)"
    by (simp add: createOrder_response)
  have "snd (decrementStock
               (occupyTable (d1\<lparr>tables := ts\<rparr>) (orderType_q req) (tableId_q req) (oid ord))
               vs)
        = snd (decrementStock
                 (occupyTable d1 (orderType_q req) (tableId_q req) (oid ord)) vs)"
    by (rule decrementStock_response) simp
  then have 3: "snd (finishOrder (d1\<lparr>tables := ts\<rparr>) req ord vs)
                  = snd (finishOrder d1 req ord vs)"
    by (simp add: snd_finishOrder)
  have 4: "tables (fst (finishOrder d1 req ord vs))
             = tables (occupyTable d1 (orderType_q req) (tableId_q req) (oid ord))"
    by (simp add: fst_finishOrder)
  have 5: "tables (occupyTable d1 Dine_in (Some t) k) = tables d1"
    if "tables d1 t = Some tbl" "status_t tbl \<noteq> Available" "status_t tbl \<noteq> Reserved"
    for k
    using that by (auto simp: occupyTable_def occupy_def)
  from 1 2 3 5 show ?thesis unfolding 4 by (auto simp: occupyTable_def occupy_def)
qed

theorem createOrder_ignores_table_status_witness:
  "snd (createOrder (ex_db\<lparr>tables := Map.empty\<rparr>) 5 (ex_req Dine_in (Some 2)) ex_now)
     = snd (createOrder ex_db 5 (ex_req Dine_in (Some 2)) ex_now)
   \<and> tables ex_db 1 = Some (ex_table Available None)
   \<and> occupy (ex_table Available None) 0 = (ex_table Occupied (Some 0), True)
   \<and> tables (fst (finishOrder ex_db (ex_req Dine_in (Some 1)) ex_order [ex_line])) 1
       = Some (ex_table Occupied (Some 0))
   \<and> tables ex_db 3 = Some (ex_table Reserved None)
   \<and> tables (fst (finishOrder ex_db (ex_req Dine_in (Some 3)) ex_order [ex_line])) 3
       = Some (ex_table Occupied (Some 0))
   \<and> tables ex_db 2 = Some (ex_table Occupied (Some 40))
   \<and> occupy (ex_table Occupied (Some 40)) 0 = (ex_table Occupied (Some 40), False)
   \<and> tables (fst (finishOrder ex_db (ex_req Dine_in (Some 2)) ex_order [ex_line])) 2
       = Some (ex_table Occupied (Some 40))
   \<and> snd (finishOrder ex_db (ex_req Dine_in (Some 2)) ex_order [ex_line]) = Inr ex_order"
proof -
  have t: "tables ex_db 1 = Some (ex_table Available None)"
    "tables ex_db 3 = Some (ex_table Reserved None)"
    "tables ex_db 2 = Some (ex_table Occupied (Some 40))"
    by (simp_all add: ex_db_def)
  have s: "status_t (ex_table st cur) = st" for st cur by (simp add: ex_table_def)
  have u: "ex_table st cur\<lparr>status_t := Occupied, currentOrder := Some 0\<rparr>
             = ex_table Occupied (Some 0)" for st cur
    by (simp add: ex_table_def)
  have q: "orderType_q (ex_req Dine_in tid) = Dine_in" "tableId_q (ex_req Dine_in tid) = tid"
    for tid by (simp_all add: ex_req_def)
  have o: "oid ex_order = 0" by (simp add: ex_order_def)
  note T = createOrder_ignores_table_status
  from T [of ex_db 5 "ex_req Dine_in (Some 2)" ex_now Map.empty]
  have a: "snd (createOrder (ex_db\<lparr>tables := Map.empty\<rparr>) 5 (ex_req Dine_in (Some 2)) ex_now)
     = snd (createOrder ex_db 5 (ex_req Dine_in (Some 2)) ex_now)"
    by blast
  from T [of _ _ "ex_req Dine_in (Some 1)" _ _ ex_db ex_order "[ex_line]" 1
             "ex_table Available None"] t(1)
  have b: "occupy (ex_table Available None) 0 = (ex_table Occupied (Some 0), True)"
    "tables (fst (finishOrder ex_db (ex_req Dine_in (Some 1)) ex_order [ex_line])) 1
       = Some (ex_table Occupied (Some 0))"
    by (simp_all add: s u q o)
  from T [of _ _ "ex_req Dine_in (Some 3)" _ _ ex_db ex_order "[ex_line]" 3
             "ex_table Reserved None"] t(2)
  have c: "tables (fst (finishOrder ex_db (ex_req Dine_in (Some 3)) ex_order [ex_line])) 3
       = Some (ex_table Occupied (Some 0))"
    by (simp add: s u q o)
  from T [of _ _ "ex_req Dine_in (Some 2)" _ _ ex_db ex_order "[ex_line]" 2
             "ex_table Occupied (Some 40)"] t(3)
  have e: "occupy (ex_table Occupied (Some 40)) 0 = (ex_table Occupied (Some 40), False)"
    "tables (fst (finishOrder ex_db (ex_req Dine_in (Some 2)) ex_order [ex_line])) 2
       = Some (ex_table Occupied (Some 40))"
    by (simp_all add: s q o)
  have f: "snd (finishOrder ex_db (ex_req Dine_in (Some 2)) ex_order [ex_line]) = Inr ex_order"
    by (simp add: snd_finishOrder occupyTable_def ex_db_def ex_req_def ex_line_def)
  from a b c e f t show ?thesis by simp
qed

subsection \<open>The totals of a created order\<close>

text \<open>
  C2 speaks of the orders that the route has created.  The route creates none: the
  document it builds is refused by \<open>Order.create\<close> whatever the request, the database
  stays as it was and no response is an order.
\<close>

theorem createOrder_creates_no_order:
  "Order_create d (orderDocument d user req now sub validatedItems rst) now
     = Inl ValidationError
   \<and> fst (createOrder d user req now) = d
   \<and> snd (createOrder d user req now) \<noteq> Inr ord
   \<and> createOrder ex_db 5 (ex_req Delivery None) ex_now = (ex_db, Inl ValidationError)"
proof -
  have "Order_create d (orderDocument d user req now sub validatedItems rst) now
          = Inl ValidationError"
    by (simp add: Order_create_unnumbered orderDocument_def Let_def)
  moreover have "fst (createOrder d user req now) = d"
    "snd (createOrder d user req now) \<noteq> Inr ord"
    by (simp_all add: createOrder_response)
  ultimately show ?thesis using ex_createOrder [of Delivery None ex_now] by simp
qed

subsection \<open>The scenario of the specification\<close>

text \<open>The doubles of the scenario, operation by operation.\<close>

lemma scenario_literals:
  "jsNumber (1299 / 100) = 7312719894942843 / 562949953421312"
  "jsNumber (2748 / 100) = 7734932360008827 / 281474976710656"
  "jsNumber (23358000000000003 / 10000000000000000)
     = 5259754004806003 / 2251799813685248"
  "jsNumber (2748 / 1000) = 3093972944003531 / 1125899906842624"
  "jsNumber (325638 / 10000) = 2291473711652615 / 70368744177664"
  "jsNumber (3257 / 100) = 4583819995733033 / 140737488355328"
  by (simp_all add: double_defs)

lemma scenario_line:
  "jsMul (7312719894942843 / 562949953421312) 2 = 7312719894942843 / 281474976710656"
  "jsAdd (7312719894942843 / 281474976710656) (3 / 2)
     = 7734932360008827 / 281474976710656"
  "jsAdd 0 (7734932360008827 / 281474976710656) = 7734932360008827 / 281474976710656"
  by (simp_all add: double_defs)

lemma scenario_charges:
  "jsMul (7734932360008827 / 281474976710656) (17 / 2)
     = 8218365632509379 / 35184372088832"
  "jsDiv (8218365632509379 / 35184372088832) 100 = 5259754004806003 / 2251799813685248"
  "jsMul (7734932360008827 / 281474976710656) 10 = 4834332725005517 / 17592186044416"
  "jsDiv (4834332725005517 / 17592186044416) 100 = 3093972944003531 / 1125899906842624"
  by (simp_all add: double_defs)

lemma scenario_sum:
  "jsAdd (7734932360008827 / 281474976710656) (5259754004806003 / 2251799813685248)
     = 8392401610609577 / 281474976710656"
  "jsAdd (8392401610609577 / 281474976710656) (3093972944003531 / 1125899906842624)
     = 2291473711652615 / 70368744177664"
  "jsAdd (2291473711652615 / 70368744177664) 0 = 2291473711652615 / 70368744177664"
  by (simp_all add: double_defs)

lemma scenario_document:
  "map_sum id (\<lambda>doc. (map totalPrice (items doc), subtotal doc, taxAmount doc,
                       serviceCharge doc, deliveryFee doc, totalAmount doc))
     (priceOrder ex_db 5 (ex_req Dine_in (Some 1)) ex_now)
   = Inr ([7734932360008827 / 281474976710656], 7734932360008827 / 281474976710656,
          5259754004806003 / 2251799813685248, 3093972944003531 / 1125899906842624, 0,
          2291473711652615 / 70368744177664)"
  by (simp add: priceOrder_def orderDocument_def addCustomizations_def priceOr0_def
        ex_db_def ex_req_def ex_item_def ex_dish_def ex_restaurant_def Let_def
        scenario_literals scenario_line scenario_charges scenario_sum)

text \<open>
  C7, as the claim states it, fails: for the dish at 12.99, quantity 2, one customization
  of 1.50, tax 8.5 percent, service charge 10 percent and a dine-in order, the route
  produces no order but a \<open>ValidationError\<close>, and the total it has computed for the
  document is not 32.57, nor is 32.57 its value to the nearest cent.
\<close>

theorem scenario_total_counterexample:
  "createOrder ex_db 5 (ex_req Dine_in (Some 1)) ex_now = (ex_db, Inl ValidationError)
   \<and> map_sum id totalAmount (priceOrder ex_db 5 (ex_req Dine_in (Some 1)) ex_now)
       \<noteq> Inr (jsNumber (3257 / 100))
   \<and> map_sum id (\<lambda>doc. roundsToCents (totalAmount doc) 3257)
        (priceOrder ex_db 5 (ex_req Dine_in (Some 1)) ex_now) = Inr False"
proof -
  obtain doc where d: "priceOrder ex_db 5 (ex_req Dine_in (Some 1)) ex_now = Inr doc"
    using ex_priceOrder by blast
  have t: "totalAmount doc = 2291473711652615 / 70368744177664"
    using scenario_document unfolding d by simp
  show ?thesis
    unfolding scenario_literals d
    by (simp add: ex_createOrder t roundsToCents_def)
qed

text \<open>
  C7, amended.  For that order the handler computes, and hands to \<open>Order.create\<close>, the
  line total 27.48, the subtotal 27.48, the tax 2.3358000000000003, the service charge
  2.748, the delivery fee 0 and the total 32.5638, each the double its decimal denotes
  and none of them rounded to cents; to the nearest cent they are 27.48, 27.48, 2.34,
  2.75, 0 and 32.56.
\<close>

theorem scenario_totals:
  "map_sum id (\<lambda>doc. (map totalPrice (items doc), subtotal doc, taxAmount doc,
                       serviceCharge doc, deliveryFee doc, totalAmount doc))
     (priceOrder ex_db 5 (ex_req Dine_in (Some 1)) ex_now)
   = Inr ([jsNumber (2748 / 100)], jsNumber (2748 / 100),
          jsNumber (23358000000000003 / 10000000000000000), jsNumber (2748 / 1000), 0,
          jsNumber (325638 / 10000))
   \<and> roundsToCents (jsNumber (2748 / 100)) 2748
   \<and> roundsToCents (jsNumber (23358000000000003 / 10000000000000000)) 234
   \<and> roundsToCents (jsNumber (2748 / 1000)) 275
   \<and> roundsToCents (jsNumber (325638 / 10000)) 3256"
  unfolding scenario_literals using scenario_document
  by (simp add: roundsToCents_def)

section \<open>Creating an order and cancelling it\<close>

text \<open>
  What the two stock loops do to one dish when the first runs to its end and the dish
  holds at least the quantity the lines take of it: the decrement takes exactly that
  quantity off, and the restore loop over the same lines puts it back.
\<close>

lemma foldl_updateStock_sub:
  "\<forall>q\<in>set qs. 0 \<le> q \<Longrightarrow> sum_list qs \<le> stockQuantity dish \<Longrightarrow>
   stockQuantity (foldl updateStock dish (map uminus qs)) = stockQuantity dish - sum_list qs"
proof (induction qs arbitrary: dish)
  case Nil
  then show ?case by simp
next
  case (Cons q qs)
  have "0 \<le> sum_list qs" using Cons.prems by (simp add: sum_list_nonneg)
  with Cons.prems have s: "stockQuantity (updateStock dish (- q)) = stockQuantity dish - q"
    by simp
  with Cons.prems have "sum_list qs \<le> stockQuantity (updateStock dish (- q))" by simp
  with Cons have "stockQuantity (foldl updateStock (updateStock dish (- q)) (map uminus qs))
        = stockQuantity (updateStock dish (- q)) - sum_list qs"
    by simp
  with s show ?case by simp
qed

lemma foldl_updateStock_stock_add:
  assumes "0 \<le> stockQuantity dish" and "\<forall>q\<in>set qs. 0 \<le> q"
  shows "stockQuantity (foldl updateStock dish qs) = stockQuantity dish + sum_list qs"
proof (cases "qs = []")
  case True
  then show ?thesis by simp
next
  case False
  have "0 \<le> sum_list qs" by (rule sum_list_nonneg) (use assms(2) in blast)
  with foldl_updateStock_add [OF assms False] assms(1) show ?thesis by simp
qed

lemma stock_loops_inverse:
  assumes "decrementStock d its = (d1, None)"
    and "dishes d k = Some dish"
    and "list_all (\<lambda>item. 1 \<le> quantity item) its"
    and "orderedQuantity k its \<le> stockQuantity dish"
  shows "map_option stockQuantity (dishes d1 k) = Some (stockQuantity dish - orderedQuantity k its)"
    and "map_option stockQuantity (dishes (restoreStock d1 its) k) = Some (stockQuantity dish)"
proof -
  let ?qs = "map quantity (filter (\<lambda>item. dishId item = k) its)"
  have nn: "\<forall>q\<in>set ?qs. 0 \<le> q" using assms(3) by (rule sum_list_quantities_nonneg)
  have tot: "sum_list ?qs = orderedQuantity k its" by (simp add: orderedQuantity_def)
  have m: "map (\<lambda>item. - quantity item) (filter (\<lambda>item. dishId item = k) its) = map uminus ?qs"
    by simp
  define dish1 where "dish1 = foldl updateStock dish (map uminus ?qs)"
  have d1k: "dishes d1 k = Some dish1"
    using decrementStock_dishes [OF assms(1), of k] assms(2) unfolding m dish1_def by simp
  have s1: "stockQuantity dish1 = stockQuantity dish - orderedQuantity k its"
    unfolding dish1_def using foldl_updateStock_sub [OF nn] assms(4) tot by simp
  show "map_option stockQuantity (dishes d1 k)
          = Some (stockQuantity dish - orderedQuantity k its)"
    using d1k s1 by simp
  have "0 \<le> stockQuantity dish1" using s1 assms(4) by simp
  then have "stockQuantity (foldl updateStock dish1 ?qs) = stockQuantity dish1 + sum_list ?qs"
    using nn by (rule foldl_updateStock_stock_add)
  then show "map_option stockQuantity (dishes (restoreStock d1 its) k)
          = Some (stockQuantity dish)"
    using d1k s1 tot by (simp add: restoreStock_dishes)
qed

text \<open>
  C3 speaks of an order that has been created.  The route creates none: the request for
  two portions of dish 7 is answered with \<open>ValidationError\<close>, the stock of the dish is
  still 10, not 8, and there is no order 0 to cancel.
\<close>

theorem create_then_cancel_nothing_stored:
  "createOrder ex_db 5 (ex_req Dine_in (Some 1)) ex_now = (ex_db, Inl ValidationError)
   \<and> orders (fst (createOrder ex_db 5 (ex_req Dine_in (Some 1)) ex_now)) = []
   \<and> map_option stockQuantity
        (dishes (fst (createOrder ex_db 5 (ex_req Dine_in (Some 1)) ex_now)) 7) = Some 10
   \<and> cancelOrder (fst (createOrder ex_db 5 (ex_req Dine_in (Some 1)) ex_now)) 5 0
        (Some ''changed my mind'') ex_later
       = (ex_db, Inl NotFound)"
  by (simp add: ex_createOrder)
     (simp add: ex_db_def ex_dish_def cancelOrder_def findById_def)

section \<open>Order numbers\<close>

lemma setOrderStatus_orderNumbers:
  "map orderNumber (orders (fst (setOrderStatus d user i newStatus notesArg now)))
     = map orderNumber (orders d)"
  by (auto simp: setOrderStatus_def findById_def saveOrder_def updateStatus_def Let_def
        map_update list_update_same_conv)

lemma cancelOrder_orderNumbers:
  "map orderNumber (orders (fst (cancelOrder d user i reason now)))
     = map orderNumber (orders d)"
  by (auto simp: cancelOrder_def findById_def saveOrder_def updateStatus_def Let_def
        map_update list_update_same_conv)

lemma updateDishStock_orders:
  "orders (fst (updateDishStock d i qty operation)) = orders d"
  by (auto simp: updateDishStock_def Let_def split: option.splits)

lemma handle_orderNumbers:
  "map orderNumber (orders (handle d r)) = map orderNumber (orders d)"
  by (cases r)
     (simp_all add: createOrder_response setOrderStatus_orderNumbers cancelOrder_orderNumbers
        updateDishStock_orders)

lemma run_orderNumbers:
  "map orderNumber (orders (run d reqs)) = map orderNumber (orders d)"
  unfolding run_def by (induction reqs arbitrary: d) (simp_all add: handle_orderNumbers)

text \<open>
  C8 speaks of the numbers of the orders that have been created.  No request creates
  an order or gives one a number: whatever requests are handled, the order numbers in
  the collection are those that were there before, and from an empty collection the
  two orders of the same day leave it empty.
\<close>

theorem no_order_number_generated:
  "map orderNumber (orders (run d reqs)) = map orderNumber (orders d)
   \<and> length (orders (run d reqs)) = length (orders d)
   \<and> orders ex_db = []
   \<and> orders (run ex_db ex_requests) = []"
proof -
  have 1: "map orderNumber (orders (run d reqs)) = map orderNumber (orders d)"
    by (rule run_orderNumbers)
  then have 2: "length (orders (run d reqs)) = length (orders d)"
    by (rule map_eq_imp_length_eq)
  have 3: "orders ex_db = []" by (simp add: ex_db_def)
  have "length (orders (run ex_db ex_requests)) = length (orders ex_db)"
    using run_orderNumbers [of ex_db ex_requests] by (rule map_eq_imp_length_eq)
  with 3 have 4: "orders (run ex_db ex_requests) = []" by simp
  from 1 2 3 4 show ?thesis by simp
qed

section \<open>The stock adjustment\<close>

text \<open>
  C9, as the claim states it, fails: \<open>updateStock\<close> is not the only code that changes a
  stock quantity.  The stock route's \<open>set\<close> operation writes the requested quantity: the
  same request, set to 4, takes a stock of 10 to 4 and a stock of 0 to 4.  \<open>updateStock\<close>
  gets from 10 to 4 with the delta -6, which leaves a stock of 0 at 0, and from 0 to 4
  with the delta 4, which takes a stock of 10 to 14.
\<close>

theorem set_stock_counterexample:
  "map_option stockQuantity (dishes ex_db 7) = Some 10
   \<and> map_sum id stockQuantity (snd (updateDishStock ex_db 7 4 Set_to)) = Inr 4
   \<and> map_option stockQuantity (dishes (fst (updateDishStock ex_db 7 4 Set_to)) 7) = Some 4
   \<and> map_option stockQuantity (dishes ex_db1 7) = Some 0
   \<and> map_sum id stockQuantity (snd (updateDishStock ex_db1 7 4 Set_to)) = Inr 4
   \<and> map_option stockQuantity (dishes (fst (updateDishStock ex_db1 7 4 Set_to)) 7) = Some 4
   \<and> stockQuantity (updateStock ex_dish (- 6)) = 4
   \<and> stockQuantity (updateStock ex_dish_out (- 6)) = 0
   \<and> stockQuantity (updateStock ex_dish_out 4) = 4
   \<and> stockQuantity (updateStock ex_dish 4) = 14"
  by (simp add: ex_db_def ex_db1_def ex_dish_out_def ex_dish_def updateDishStock_def
        applyStockOperation_def updateStock_def checkStockStatus_def Let_def)

text \<open>
  C9, amended.  For every dish and every integer delta \<open>updateStock\<close> stores
  \<open>max 0 (quantity + delta)\<close> and sets both flags from the new quantity, so that the
  stock is not negative and the flags agree with it.  The stock loops of the order
  routes change a dish only by \<open>updateStock\<close>, once for each line of that dish with the
  line's quantity as the delta (negated in the decrement loop of the creation); the
  status route changes no dish; the stock route's \<open>add\<close> and \<open>subtract\<close> are
  \<open>updateStock\<close> with the requested quantity.  The stock route's \<open>set\<close> is not: it
  writes the requested quantity itself and sets the flags from it, and whatever the
  quantity and the delta, there is a dish on which \<open>set\<close> and \<open>updateStock\<close> differ.
\<close>

theorem updateStock_adjusts:
  "updateStock dish delta
     = dish\<lparr>stockQuantity := max 0 (stockQuantity dish + delta),
            isLowStock := (max 0 (stockQuantity dish + delta) \<le> lowStockThreshold dish),
            isOutOfStock := (max 0 (stockQuantity dish + delta) = 0)\<rparr>
   \<and> 0 \<le> stockQuantity (updateStock dish delta)
   \<and> isLowStock (updateStock dish delta)
       = (stockQuantity (updateStock dish delta) \<le> lowStockThreshold (updateStock dish delta))
   \<and> isOutOfStock (updateStock dish delta) = (stockQuantity (updateStock dish delta) = 0)
   \<and> dishes (restoreStock d its) k
       = map_option (\<lambda>dish. foldl updateStock dish
                       (map quantity (filter (\<lambda>item. dishId item = k) its)))
           (dishes d k)
   \<and> (decrementStock d its = (d', None) \<longrightarrow>
        dishes d' k
          = map_option (\<lambda>dish. foldl updateStock dish
                          (map (\<lambda>item. - quantity item)
                             (filter (\<lambda>item. dishId item = k) its)))
              (dishes d k))
   \<and> (findById (orders d) i = Some ord
        \<and> status ord \<notin> {Delivered, Completed, Cancelled, Rejected} \<longrightarrow>
        dishes (fst (cancelOrder d user i reason now)) k
          = map_option (\<lambda>dish. foldl updateStock dish
                          (map quantity (filter (\<lambda>item. dishId item = k) (items ord))))
              (dishes d k))
   \<and> dishes (fst (setOrderStatus d user i newStatus notesArg now)) = dishes d
   \<and> applyStockOperation dish qty Add = updateStock dish qty
   \<and> applyStockOperation dish qty Subtract = updateStock dish (- qty)
   \<and> applyStockOperation dish qty Set_to
       = dish\<lparr>stockQuantity := qty, isLowStock := (qty \<le> lowStockThreshold dish),
              isOutOfStock := (qty = 0)\<rparr>
   \<and> (\<exists>other. stockQuantity (applyStockOperation other qty Set_to)
                 \<noteq> stockQuantity (updateStock other delta))"
proof -
  have 1: "updateStock dish delta
     = dish\<lparr>stockQuantity := max 0 (stockQuantity dish + delta),
            isLowStock := (max 0 (stockQuantity dish + delta) \<le> lowStockThreshold dish),
            isOutOfStock := (max 0 (stockQuantity dish + delta) = 0)\<rparr>"
    by (simp add: updateStock_def checkStockStatus_def)
  have 2: "dishes (fst (setOrderStatus d user i newStatus notesArg now)) = dishes d"
    by (simp add: setOrderStatus_def saveOrder_def Let_def split: option.splits)
  have 3: "applyStockOperation dish qty Add = updateStock dish qty"
    "applyStockOperation dish qty Subtract = updateStock dish (- qty)"
    "applyStockOperation dish qty Set_to
       = dish\<lparr>stockQuantity := qty, isLowStock := (qty \<le> lowStockThreshold dish),
              isOutOfStock := (qty = 0)\<rparr>"
    by (simp_all add: applyStockOperation_def checkStockStatus_def)
  have 4: "dishes (fst (cancelOrder d user i reason now)) k
          = map_option (\<lambda>dish. foldl updateStock dish
                          (map quantity (filter (\<lambda>item. dishId item = k) (items ord))))
              (dishes d k)"
    if "findById (orders d) i = Some ord"
       "status ord \<notin> {Delivered, Completed, Cancelled, Rejected}"
    using that
    by (simp add: cancelOrder_def Let_def restoreStock_dishes saveOrder_def updateStatus_def)
  have 5: "\<exists>other. stockQuantity (applyStockOperation other qty Set_to)
                 \<noteq> stockQuantity (updateStock other delta)"
  proof
    let ?other = "dish\<lparr>stockQuantity := \<bar>delta\<bar> + \<bar>qty\<bar> + 1\<rparr>"
    show "stockQuantity (applyStockOperation ?other qty Set_to)
            \<noteq> stockQuantity (updateStock ?other delta)"
      by (simp add: applyStockOperation_def checkStockStatus_def)
  qed
  from 1 2 3 4 5 decrementStock_dishes [of d its d' k] restoreStock_dishes [of d its k]
  show ?thesis by simp
qed

theorem updateStock_adjusts_witness:
  "decrementStock ex_db [ex_line] = (fst (decrementStock ex_db [ex_line]), None)
   \<and> dishes ex_db 7 = Some ex_dish
   \<and> dishes (fst (decrementStock ex_db [ex_line])) 7 = Some (updateStock ex_dish (- 2))
   \<and> findById (orders ex_db1) 0 = Some ex_order
   \<and> status ex_order \<notin> {Delivered, Completed, Cancelled, Rejected}
   \<and> dishes ex_db1 7 = Some ex_dish_out
   \<and> dishes (fst (cancelOrder ex_db1 5 0 None ex_later)) 7 = Some (updateStock ex_dish_out 2)"
proof -
  have a: "decrementStock ex_db [ex_line] = (fst (decrementStock ex_db [ex_line]), None)"
    by (simp add: ex_db_def ex_line_def)
  have b: "dishes ex_db 7 = Some ex_dish" by (simp add: ex_db_def)
  have s: "status ex_order \<notin> {Delivered, Completed, Cancelled, Rejected}"
    by (simp add: ex_order_facts)
  have c: "dishes ex_db1 7 = Some ex_dish_out" by (simp add: ex_db1_dishes)
  note T = updateStock_adjusts
             [of _ _ ex_db "[ex_line]" 7 "fst (decrementStock ex_db [ex_line])"]
  from T a b have e: "dishes (fst (decrementStock ex_db [ex_line])) 7
                        = Some (updateStock ex_dish (- 2))"
    by (simp add: ex_line_def)
  note U = updateStock_adjusts [of _ _ ex_db1 _ 7 _ 0 ex_order 5 None ex_later]
  from U ex_found s c
  have f: "dishes (fst (cancelOrder ex_db1 5 0 None ex_later)) 7
             = Some (updateStock ex_dish_out 2)"
    by (simp add: ex_order_facts ex_line_def)
  from a b e ex_found s c f show ?thesis by simp
qed

end
